theory Spec2Isabelle
  imports Main "HOL-Library.Word"
begin

section \<open>Data model of package mserver\<close>

text \<open>
  \<^verbatim>\<open>time.Duration\<close> is a signed 64-bit count of nanoseconds. Go's \<^verbatim>\<open>error\<close> is an
  interface value that is either \<^verbatim>\<open>nil\<close> or an error: it is modelled as
  \<open>error option\<close> with \<open>None\<close> for \<^verbatim>\<open>nil\<close>. \<open>ErrServerNotStarted\<close> is the package's own
  error value; \<open>ErrServerClosed\<close> and \<open>NetError\<close> stand for the errors that
  \<^verbatim>\<open>net/http\<close> hands back.
\<close>

type_synonym Duration = "64 word"

datatype error = ErrServerNotStarted | ErrServerClosed | NetError string

datatype Signal = Interrupt | Kill

text \<open>
  A \<^verbatim>\<open>*http.ServeMux\<close> is a pointer: \<open>None\<close> is \<^verbatim>\<open>nil\<close>, \<open>DefaultServeMux\<close> the
  process-wide multiplexer of \<^verbatim>\<open>net/http\<close>, \<open>ServeMuxAt a\<close> any other one.
\<close>

datatype ServeMux = DefaultServeMux | ServeMuxAt nat

record http_Server =
  Addr :: string
  Handler :: "ServeMux option"

text \<open>A channel value is the address of a channel made by \<^verbatim>\<open>make\<close>; \<open>None\<close> is the nil channel.\<close>

type_synonym chan = nat

record Mserver =
  Server :: "http_Server option"
  stop :: "chan option"
  started :: bool
  ShutdownTimeout :: Duration
  Error :: "error option"

text \<open>The zero value \<^verbatim>\<open>Mserver{}\<close>.\<close>

definition zero_Mserver :: Mserver where
  "zero_Mserver = \<lparr>Server = None, stop = None, started = False, ShutdownTimeout = 0, Error = None\<rparr>"

text \<open>The context made by \<^verbatim>\<open>context.WithTimeout(context.Background(), d)\<close>.\<close>

datatype ctx = WithTimeout Duration

text \<open>
  Everything the package does outside its own struct is an event. The trace keeps the
  events in program order, each one together with the fields of the \<open>Mserver\<close> at the
  moment it happens, so that "field written before the call" can be read off the trace.
\<close>

datatype event =
    Log string
  | MakeChan chan
  | SignalNotify chan "Signal list"
  | SignalStop "chan option"
  | Go_startGoServerInternal
  | ListenAndServe http_Server
  | CtxCreate ctx
  | Shutdown http_Server ctx
  | CtxCancel ctx
  | Close chan
  | Send chan Signal

datatype chan_state = Open | Closed

record world =
  ms :: Mserver
  chans :: "chan_state list"
  trace :: "(event \<times> Mserver) list"

datatype 'a outcome = Returns 'a | Blocks | Panics

definition emit :: "event \<Rightarrow> world \<Rightarrow> world" where
  "emit e w = w\<lparr>trace := trace w @ [(e, ms w)]\<rparr>"

definition is_closed :: "chan \<Rightarrow> world \<Rightarrow> bool" where
  "is_closed c w = (c < length (chans w) \<and> chans w ! c = Closed)"

definition is_open :: "chan \<Rightarrow> world \<Rightarrow> bool" where
  "is_open c w = (c < length (chans w) \<and> chans w ! c = Open)"

text \<open>
  \<^verbatim>\<open>close(ch)\<close>: closing the nil channel or a closed channel panics (\<open>None\<close>).
\<close>

definition close_chan :: "chan option \<Rightarrow> world \<Rightarrow> world option" where
  "close_chan ch w =
     (case ch of
        None \<Rightarrow> None
      | Some c \<Rightarrow>
          if is_open c w then Some (emit (Close c) (w\<lparr>chans := (chans w)[c := Closed]\<rparr>))
          else None)"

text \<open>
  \<^verbatim>\<open><-ch\<close> by a goroutine that runs alone: on the nil channel it never completes, on a
  closed channel it completes at once, on an open channel it completes when a value
  arrives (\<open>arrival\<close>: the signal that the operating system or \<open>ForceStop\<close> delivers, if
  any ever is).
\<close>

definition receive :: "Signal option \<Rightarrow> chan option \<Rightarrow> world \<Rightarrow> bool" where
  "receive arrival ch w =
     (case ch of
        None \<Rightarrow> False
      | Some c \<Rightarrow>
          (case arrival of
             None \<Rightarrow> is_closed c w
           | Some s \<Rightarrow> True))"

section \<open>The lifecycle functions of \<^verbatim>\<open>mserver.go\<close>\<close>

text \<open>
  The deferred calls of \<open>stopServerInternal\<close>, in the order they run: \<^verbatim>\<open>close(p.stop)\<close>
  (deferred last), then \<^verbatim>\<open>cancel()\<close>. The channel is the one read when the
  \<^verbatim>\<open>defer\<close> statement ran. A panic in the close does not stop \<^verbatim>\<open>cancel()\<close>.
\<close>

definition run_deferred :: "chan option \<Rightarrow> ctx \<Rightarrow> 'a outcome \<Rightarrow> world \<Rightarrow> 'a outcome \<times> world" where
  "run_deferred ch c res w =
     (case close_chan ch w of
        None \<Rightarrow> (Panics, emit (CtxCancel c) w)
      | Some w' \<Rightarrow> (res, emit (CtxCancel c) w'))"

text \<open>
  \<open>shut\<close> is what \<^verbatim>\<open>p.Server.Shutdown(ctx)\<close> returns. Calling it on a nil
  \<^verbatim>\<open>*http.Server\<close> is a nil dereference.
\<close>

definition stopServerInternal :: "error option \<Rightarrow> world \<Rightarrow> error option outcome \<times> world" where
  "stopServerInternal shut w =
     (if \<not> started (ms w) then (Returns (Some ErrServerNotStarted), w)
      else
        let c = WithTimeout (ShutdownTimeout (ms w));
            w0 = emit (CtxCreate c) w;
            ch = stop (ms w0);
            w1 = w0\<lparr>ms := (ms w0)\<lparr>started := False\<rparr>\<rparr>
        in case Server (ms w1) of
             None \<Rightarrow> run_deferred ch c Panics w1
           | Some srv \<Rightarrow>
               let w2 = emit (Shutdown srv c) w1;
                   w3 = w2\<lparr>ms := (ms w2)\<lparr>Error := shut\<rparr>\<rparr>
               in run_deferred ch c (Returns (Error (ms w3))) w3)"

text \<open>A call whose result the caller drops: only a block or a panic is left of it.\<close>

definition discard :: "'a outcome \<Rightarrow> unit outcome" where
  "discard r = (case r of Returns v \<Rightarrow> Returns () | Blocks \<Rightarrow> Blocks | Panics \<Rightarrow> Panics)"

text \<open>
  \<open>serve\<close> is what \<^verbatim>\<open>p.Server.ListenAndServe()\<close> does: \<open>None\<close> when it never returns,
  \<open>Some e\<close> when it returns the error \<open>e\<close>.
\<close>

definition startGoServerInternal ::
  "error option option \<Rightarrow> error option \<Rightarrow> world \<Rightarrow> unit outcome \<times> world" where
  "startGoServerInternal serve shut w =
     (if started (ms w) then (Returns (), emit (Log '' Server Already Stared'') w)
      else
        let w1 = emit (Log '' Server Started ...'') w;
            w2 = w1\<lparr>ms := (ms w1)\<lparr>started := True\<rparr>\<rparr>
        in case Server (ms w2) of
             None \<Rightarrow> (Panics, w2)
           | Some srv \<Rightarrow>
               let w3 = emit (ListenAndServe srv) w2
               in case serve of
                    None \<Rightarrow> (Blocks, w3)
                  | Some e \<Rightarrow>
                      let w4 = w3\<lparr>ms := (ms w3)\<lparr>Error := e\<rparr>\<rparr>;
                          w5 = emit (Log '' Server Stopping ...'') w4
                      in if Error (ms w5) \<noteq> None
                         then (case stopServerInternal shut w5 of
                                 (r, w6) \<Rightarrow> (discard r, w6))
                         else (Returns (), w5))"

definition StartServer :: "string \<Rightarrow> ServeMux option \<Rightarrow> Duration \<Rightarrow> world \<Rightarrow> world" where
  "StartServer addr mux timeout w =
     (if length addr = 0 \<or> timeout = 0 \<or> mux = None then w
      else
        let c = length (chans w);
            w1 = emit (MakeChan c) (w\<lparr>chans := chans w @ [Open]\<rparr>);
            w2 = w1\<lparr>ms := (ms w1)\<lparr>stop := Some c\<rparr>\<rparr>;
            w3 = emit (SignalNotify c [Kill, Interrupt]) w2;
            w4 = w3\<lparr>ms := (ms w3)\<lparr>ShutdownTimeout := timeout\<rparr>\<rparr>;
            w5 = w4\<lparr>ms := (ms w4)\<lparr>Server := Some \<lparr>Addr = addr, Handler = mux\<rparr>\<rparr>\<rparr>;
            w6 = w5\<lparr>ms := (ms w5)\<lparr>Error := None\<rparr>\<rparr>;
            w7 = emit (Log ('' Starting Default Server at '' @ addr)) w6
        in emit Go_startGoServerInternal w7)"

definition StartDefaultServer :: "string \<Rightarrow> Duration \<Rightarrow> world \<Rightarrow> world" where
  "StartDefaultServer addr timeout w = StartServer addr (Some DefaultServeMux) timeout w"

text \<open>
  \<open>arrival\<close> is what reaches the stop channel while the caller waits, \<open>shut\<close> what
  \<^verbatim>\<open>Shutdown\<close> returns. \<^verbatim>\<open>p.Server.Addr\<close> on a nil server is a nil dereference.
\<close>

definition GracefulStop ::
  "Signal option \<Rightarrow> error option \<Rightarrow> bool \<Rightarrow> world \<Rightarrow> error option outcome \<times> world" where
  "GracefulStop arrival shut waitForInterrupt w =
     (let wait = (waitForInterrupt \<and> Error (ms w) = None);
          w1 = (if wait then emit (Log '' Waiting for signals ...'') w else w)
      in if wait \<and> \<not> receive arrival (stop (ms w1)) w1 then (Blocks, w1)
         else if \<not> started (ms w1) then (Returns (Some ErrServerNotStarted), w1)
         else (case Server (ms w1) of
                 None \<Rightarrow> (Panics, w1)
               | Some srv \<Rightarrow>
                   stopServerInternal shut
                     (emit (Log ('' Shutting down Server at '' @ Addr srv @ '' ...'')) w1)))"

text \<open>
  The send \<^verbatim>\<open>p.stop <- os.Kill\<close> is on an unbuffered channel: it blocks for ever on
  the nil channel, panics on a closed one, and otherwise completes when a receiver is
  waiting (\<open>receiver\<close>).
\<close>

definition ForceStop :: "bool \<Rightarrow> world \<Rightarrow> unit outcome \<times> world" where
  "ForceStop receiver w =
     (if \<not> started (ms w) then (Returns (), w)
      else
        let w1 = emit (SignalStop (stop (ms w))) w
        in case stop (ms w1) of
             None \<Rightarrow> (Blocks, w1)
           | Some c \<Rightarrow>
               if is_closed c w1 then (Panics, w1)
               else if receiver then (Returns (), emit (Send c Kill) w1)
               else (Blocks, w1))"

definition NewMserver :: "string \<Rightarrow> Duration \<Rightarrow> world \<Rightarrow> world" where
  "NewMserver addr timeout w =
     (let m = zero_Mserver;
          m1 = m\<lparr>started := False\<rparr>;
          m2 = m1\<lparr>Error := None\<rparr>
      in StartDefaultServer addr timeout (w\<lparr>ms := m2\<rparr>))"

text \<open>A process in which nothing has happened yet, holding a zero \<open>Mserver\<close>.\<close>

definition new_world :: world where
  "new_world = \<lparr>ms = zero_Mserver, chans = [], trace = []\<rparr>"

text \<open>
  Repeated calls of \<open>GracefulStop\<close> by one caller, each with its own environment
  (arrival, result of \<^verbatim>\<open>Shutdown\<close>) and argument. A call that blocks or panics is the
  last one.
\<close>

fun GracefulStop_calls ::
  "(Signal option \<times> error option \<times> bool) list \<Rightarrow> world \<Rightarrow> error option outcome list \<times> world" where
  "GracefulStop_calls [] w = ([], w)"
| "GracefulStop_calls ((arrival, shut, b) # cs) w =
     (case GracefulStop arrival shut b w of
        (Returns r, w') \<Rightarrow>
          (case GracefulStop_calls cs w' of (rs, w'') \<Rightarrow> (Returns r # rs, w''))
      | (Blocks, w') \<Rightarrow> ([Blocks], w')
      | (Panics, w') \<Rightarrow> ([Panics], w'))"

text \<open>
  The lines that repeated calls log before the receive, when each call finds the
  struct \<open>m\<close>.
\<close>

fun wait_logs :: "(Signal option \<times> error option \<times> bool) list \<Rightarrow> Mserver \<Rightarrow> (event \<times> Mserver) list" where
  "wait_logs [] m = []"
| "wait_logs ((arrival, shut, b) # cs) m =
     (if b \<and> Error m = None then (Log '' Waiting for signals ...'', m) # wait_logs cs m
      else wait_logs cs m)"

text \<open>The state a completed shutdown leaves: flag cleared, stop channel closed.\<close>

definition shutdown_completed :: "world \<Rightarrow> bool" where
  "shutdown_completed w =
     (case stop (ms w) of
        None \<Rightarrow> False
      | Some c \<Rightarrow> is_closed c w \<and> \<not> started (ms w))"

fun is_Shutdown :: "event \<Rightarrow> bool" where
  "is_Shutdown (Shutdown srv c) = True"
| "is_Shutdown e = False"

text \<open>How many times \<^verbatim>\<open>Server.Shutdown\<close> has been called so far.\<close>

definition shutdown_calls :: "world \<Rightarrow> nat" where
  "shutdown_calls w = length (filter is_Shutdown (map fst (trace w)))"

subsection \<open>Worlds of the README's program\<close>

text \<open>
  \<open>ready_world\<close>: after \<^verbatim>\<open>mserver.NewMserver(":8080", 10*time.Second)\<close>.
  \<open>running_world\<close>: the serving task has started and sits in \<^verbatim>\<open>ListenAndServe\<close>.
\<close>

definition ready_world :: world where
  "ready_world = NewMserver '':8080'' 10000000000 new_world"

definition running_world :: world where
  "running_world = snd (startGoServerInternal None None ready_world)"

section \<open>Goroutines running at the same time\<close>

text \<open>
  The functions above run one goroutine to its end. Here the same code runs statement by
  statement, so that the statements of several goroutines can interleave on the one
  \<open>Mserver\<close>. A program counter names the statement a goroutine executes next, with the
  values it holds in local variables: \<open>G_\<close> is \<open>GracefulStop\<close>, \<open>T_\<close> the serving task
  \<open>startGoServerInternal\<close>, \<open>F_\<close> is \<open>ForceStop\<close> and \<open>S_\<close> is \<open>stopServerInternal\<close>, which
  \<open>GracefulStop\<close> and the serving task both call last.

  \<^item> \<open>G_parked ch\<close> and \<open>F_parked ch\<close>: parked in the receive, in the send, on the channel
    that \<^verbatim>\<open>p.stop\<close> held when the statement began;
  \<^item> \<open>T_serving\<close> and \<open>S_in_shutdown\<close>: inside \<^verbatim>\<open>ListenAndServe\<close>, inside \<^verbatim>\<open>Shutdown\<close>;
  \<^item> \<open>S_defer\<close> reads \<^verbatim>\<open>p.stop\<close> for the deferred close, \<open>S_clear\<close> is
    \<^verbatim>\<open>p.started = false\<close>, \<open>S_close\<close> and \<open>S_cancel\<close> are the deferred calls;
  \<^item> \<open>Returned v\<close>: the goroutine's function has returned \<open>v\<close> (for the serving task, the
    result of \<open>stopServerInternal\<close>, which it drops); \<open>Exited\<close>: it has returned without a
    value; \<open>Panicked\<close>: it has panicked, which ends the whole program.
\<close>

datatype pc =
    G_entry bool
  | G_log_wait
  | G_recv
  | G_parked "chan option"
  | G_check
  | G_log_shutdown
  | T_entry
  | T_log_started
  | T_set
  | T_call
  | T_serving
  | T_assign "error option"
  | T_log_stopping
  | T_test
  | F_entry
  | F_sigstop
  | F_send
  | F_parked "chan option"
  | S_entry
  | S_ctx
  | S_defer ctx
  | S_clear ctx "chan option"
  | S_call ctx "chan option"
  | S_in_shutdown ctx "chan option"
  | S_assign ctx "chan option" "error option"
  | S_return ctx "chan option"
  | S_close ctx "chan option" "error option outcome"
  | S_cancel ctx "error option outcome"
  | Returned "error option"
  | Exited
  | Panicked

text \<open>One statement of one goroutine; \<open>None\<close> when the goroutine cannot move by itself.\<close>

fun local_step :: "pc \<Rightarrow> world \<Rightarrow> (pc \<times> world) option" where
  "local_step (G_entry b) w =
     (if b \<and> Error (ms w) = None then Some (G_log_wait, w) else Some (G_check, w))"
| "local_step G_log_wait w = Some (G_recv, emit (Log '' Waiting for signals ...'') w)"
| "local_step G_recv w = Some (G_parked (stop (ms w)), w)"
| "local_step (G_parked ch) w =
     (case ch of
        None \<Rightarrow> None
      | Some c \<Rightarrow> if is_closed c w then Some (G_check, w) else None)"
| "local_step G_check w =
     (if \<not> started (ms w) then Some (Returned (Some ErrServerNotStarted), w)
      else Some (G_log_shutdown, w))"
| "local_step G_log_shutdown w =
     (case Server (ms w) of
        None \<Rightarrow> Some (Panicked, w)
      | Some srv \<Rightarrow>
          Some (S_entry, emit (Log ('' Shutting down Server at '' @ Addr srv @ '' ...'')) w))"
| "local_step T_entry w =
     (if started (ms w) then Some (Exited, emit (Log '' Server Already Stared'') w)
      else Some (T_log_started, w))"
| "local_step T_log_started w = Some (T_set, emit (Log '' Server Started ...'') w)"
| "local_step T_set w = Some (T_call, w\<lparr>ms := (ms w)\<lparr>started := True\<rparr>\<rparr>)"
| "local_step T_call w =
     (case Server (ms w) of
        None \<Rightarrow> Some (Panicked, w)
      | Some srv \<Rightarrow> Some (T_serving, emit (ListenAndServe srv) w))"
| "local_step T_serving w = None"
| "local_step (T_assign e) w = Some (T_log_stopping, w\<lparr>ms := (ms w)\<lparr>Error := e\<rparr>\<rparr>)"
| "local_step T_log_stopping w = Some (T_test, emit (Log '' Server Stopping ...'') w)"
| "local_step T_test w =
     (if Error (ms w) \<noteq> None then Some (S_entry, w) else Some (Exited, w))"
| "local_step F_entry w =
     (if \<not> started (ms w) then Some (Exited, w) else Some (F_sigstop, w))"
| "local_step F_sigstop w = Some (F_send, emit (SignalStop (stop (ms w))) w)"
| "local_step F_send w = Some (F_parked (stop (ms w)), w)"
| "local_step (F_parked ch) w =
     (case ch of
        None \<Rightarrow> None
      | Some c \<Rightarrow> if is_closed c w then Some (Panicked, w) else None)"
| "local_step S_entry w =
     (if \<not> started (ms w) then Some (Returned (Some ErrServerNotStarted), w)
      else Some (S_ctx, w))"
| "local_step S_ctx w =
     (let c = WithTimeout (ShutdownTimeout (ms w)) in Some (S_defer c, emit (CtxCreate c) w))"
| "local_step (S_defer c) w = Some (S_clear c (stop (ms w)), w)"
| "local_step (S_clear c ch) w = Some (S_call c ch, w\<lparr>ms := (ms w)\<lparr>started := False\<rparr>\<rparr>)"
| "local_step (S_call c ch) w =
     (case Server (ms w) of
        None \<Rightarrow> Some (S_close c ch Panics, w)
      | Some srv \<Rightarrow> Some (S_in_shutdown c ch, emit (Shutdown srv c) w))"
| "local_step (S_in_shutdown c ch) w = None"
| "local_step (S_assign c ch r) w = Some (S_return c ch, w\<lparr>ms := (ms w)\<lparr>Error := r\<rparr>\<rparr>)"
| "local_step (S_return c ch) w = Some (S_close c ch (Returns (Error (ms w))), w)"
| "local_step (S_close c ch res) w =
     (case close_chan ch w of
        None \<Rightarrow> Some (S_cancel c Panics, w)
      | Some w' \<Rightarrow> Some (S_cancel c res, w'))"
| "local_step (S_cancel c res) w =
     (case res of
        Returns v \<Rightarrow> Some (Returned v, emit (CtxCancel c) w)
      | Blocks \<Rightarrow> Some (Panicked, emit (CtxCancel c) w)
      | Panics \<Rightarrow> Some (Panicked, emit (CtxCancel c) w))"
| "local_step (Returned v) w = None"
| "local_step Exited w = None"
| "local_step Panicked w = None"

text \<open>
  The operating system never hands \<^verbatim>\<open>SIGKILL\<close> to the program, so \<^verbatim>\<open>os/signal\<close> relays only
  the interrupt, whatever \<^verbatim>\<open>signal.Notify\<close> was asked for.
\<close>

fun catchable :: "Signal \<Rightarrow> bool" where
  "catchable Interrupt = True"
| "catchable Kill = False"

text \<open>
  Whether signal \<open>s\<close> is relayed to channel \<open>c\<close>: the latest of \<^verbatim>\<open>signal.Notify\<close> and
  \<^verbatim>\<open>signal.Stop\<close> on \<open>c\<close> decides (the events are given latest first).
\<close>

fun notified :: "chan \<Rightarrow> Signal \<Rightarrow> event list \<Rightarrow> bool" where
  "notified c s [] = False"
| "notified c s (SignalNotify d sigs # es) =
     (if d = c then s \<in> set sigs \<and> catchable s else notified c s es)"
| "notified c s (SignalStop d # es) =
     (if d = Some c then False else notified c s es)"
| "notified c s (e # es) = notified c s es"

definition registered :: "chan \<Rightarrow> Signal \<Rightarrow> world \<Rightarrow> bool" where
  "registered c s w = notified c s (rev (map fst (trace w)))"

text \<open>
  What can happen next in the program:
  \<^item> \<open>Step i\<close>: goroutine \<open>i\<close> executes its next statement;
  \<^item> \<open>Deliver s j\<close>: the operating system sends signal \<open>s\<close>; package \<^verbatim>\<open>os/signal\<close> hands it
    to goroutine \<open>j\<close>, parked in a receive on a registered channel (with no receiver the
    signal is dropped, the send of \<^verbatim>\<open>os/signal\<close> does not block);
  \<^item> \<open>Rendezvous i j\<close>: the send of goroutine \<open>i\<close> in \<open>ForceStop\<close> meets the receive of
    goroutine \<open>j\<close> on the same channel;
  \<^item> \<open>ServeReturns i e\<close>: \<^verbatim>\<open>ListenAndServe\<close> returns \<open>e\<close> in goroutine \<open>i\<close>;
  \<^item> \<open>ShutdownReturns i r\<close>: \<^verbatim>\<open>Shutdown\<close> returns \<open>r\<close> in goroutine \<open>i\<close>.
\<close>

datatype action =
    Step nat
  | Deliver Signal nat
  | Rendezvous nat nat
  | ServeReturns nat "error option"
  | ShutdownReturns nat "error option"

record config =
  shared :: world
  procs :: "pc list"

definition set_pc :: "nat \<Rightarrow> pc \<Rightarrow> config \<Rightarrow> config" where
  "set_pc i p cfg = cfg\<lparr>procs := (procs cfg)[i := p]\<rparr>"

fun act :: "action \<Rightarrow> config \<Rightarrow> config option" where
  "act (Step i) cfg =
     (if i < length (procs cfg)
      then (case local_step (procs cfg ! i) (shared cfg) of
              None \<Rightarrow> None
            | Some (p, w) \<Rightarrow> Some (set_pc i p (cfg\<lparr>shared := w\<rparr>)))
      else None)"
| "act (Deliver s j) cfg =
     (if j < length (procs cfg)
      then (case procs cfg ! j of
              G_parked (Some c) \<Rightarrow>
                if is_open c (shared cfg) \<and> registered c s (shared cfg)
                then Some (set_pc j G_check cfg) else None
            | _ \<Rightarrow> None)
      else None)"
| "act (Rendezvous i j) cfg =
     (if i < length (procs cfg) \<and> j < length (procs cfg)
      then (case (procs cfg ! i, procs cfg ! j) of
              (F_parked (Some c), G_parked (Some d)) \<Rightarrow>
                if c = d \<and> is_open c (shared cfg)
                then Some (set_pc j G_check
                       (set_pc i Exited (cfg\<lparr>shared := emit (Send c Kill) (shared cfg)\<rparr>)))
                else None
            | _ \<Rightarrow> None)
      else None)"
| "act (ServeReturns i e) cfg =
     (if i < length (procs cfg)
      then (case procs cfg ! i of
              T_serving \<Rightarrow> Some (set_pc i (T_assign e) cfg)
            | _ \<Rightarrow> None)
      else None)"
| "act (ShutdownReturns i r) cfg =
     (if i < length (procs cfg)
      then (case procs cfg ! i of
              S_in_shutdown c ch \<Rightarrow> Some (set_pc i (S_assign c ch r) cfg)
            | _ \<Rightarrow> None)
      else None)"

text \<open>A schedule runs as long as every action is possible and no goroutine has panicked.\<close>

definition crashed :: "config \<Rightarrow> bool" where
  "crashed cfg = (Panicked \<in> set (procs cfg))"

fun run :: "action list \<Rightarrow> config \<Rightarrow> config option" where
  "run [] cfg = Some cfg"
| "run (a # as) cfg =
     (if crashed cfg then None
      else case act a cfg of None \<Rightarrow> None | Some cfg' \<Rightarrow> run as cfg')"

text \<open>
  The README's program after \<^verbatim>\<open>NewMserver\<close>: goroutine 0 is \<^verbatim>\<open>main\<close> calling
  \<^verbatim>\<open>GracefulStop(true)\<close>, goroutine 1 the serving task that \<open>StartServer\<close> launched, and
  goroutine 2 calls \<open>ForceStop\<close>. In \<open>race_schedule\<close> the serving task reaches
  \<^verbatim>\<open>ListenAndServe\<close>, \<^verbatim>\<open>main\<close> parks in the receive, \<open>ForceStop\<close> begins, an interrupt
  wakes \<^verbatim>\<open>main\<close> and \<^verbatim>\<open>ListenAndServe\<close> fails; then both \<^verbatim>\<open>main\<close> and the serving task
  test \<^verbatim>\<open>p.started\<close> in \<open>stopServerInternal\<close> before either clears it.
\<close>

definition race_start :: config where
  "race_start = \<lparr>shared = ready_world, procs = [G_entry True, T_entry, F_entry]\<rparr>"

definition race_schedule :: "action list" where
  "race_schedule =
     [Step 1, Step 1, Step 1, Step 1,
      Step 0, Step 0, Step 0,
      Step 2,
      Deliver Interrupt 0,
      ServeReturns 1 (Some (NetError ''accept: too many open files'')),
      Step 1, Step 1, Step 1,
      Step 0, Step 0,
      Step 0, Step 1,
      Step 2, Step 2,
      Step 0, Step 0, Step 0, Step 0,
      Step 1, Step 1, Step 1, Step 1,
      ShutdownReturns 0 None, Step 0, Step 0, Step 0, Step 0,
      ShutdownReturns 1 None, Step 1, Step 1, Step 1, Step 1]"

text \<open>What is looked at in the end: the calls of \<^verbatim>\<open>Shutdown\<close> and where each goroutine is.\<close>

definition observe :: "config \<Rightarrow> nat \<times> pc list" where
  "observe cfg = (shutdown_calls (shared cfg), procs cfg)"




text \<open>
  \<open>stopServerInternal\<close> run statement by statement by a single goroutine, when the server
  is not nil: five statements up to the call of \<^verbatim>\<open>Shutdown\<close>, its return, and four more.
\<close>

definition solo_schedule :: "error option \<Rightarrow> action list" where
  "solo_schedule shut =
     [Step 0, Step 0, Step 0, Step 0, Step 0, ShutdownReturns 0 shut,
      Step 0, Step 0, Step 0, Step 0]"

definition final_pc :: "error option outcome \<Rightarrow> pc" where
  "final_pc res = (case res of Returns v \<Rightarrow> Returned v | Blocks \<Rightarrow> Panicked | Panics \<Rightarrow> Panicked)"

section \<open>The hashing helpers\<close>

text \<open>
  The helpers are \<^verbatim>\<open>m := h.New(); io.Copy(m, data); return bytes.NewBuffer(m.Sum(nil))\<close>.
  \<^verbatim>\<open>bytes.Buffer\<close>, \<^verbatim>\<open>io.Copy\<close> and the hashes belong to Go's standard library; they are
  modelled as that library documents and implements them. A buffer is its byte slice and
  its read offset. \<^verbatim>\<open>io.Copy(dst, src)\<close> calls \<^verbatim>\<open>src.WriteTo(dst)\<close> when the source has
  that method, as \<^verbatim>\<open>*bytes.Buffer\<close> has. A hash's \<^verbatim>\<open>Write\<close> takes every byte and never
  fails. The digest computed from the bytes written is a parameter.
\<close>

type_synonym byte = "8 word"

record Buffer =
  buf :: "byte list"
  off :: nat

definition Len :: "Buffer \<Rightarrow> nat" where
  "Len b = length (buf b) - off b"

definition Bytes :: "Buffer \<Rightarrow> byte list" where
  "Bytes b = drop (off b) (buf b)"

definition Reset :: "Buffer \<Rightarrow> Buffer" where
  "Reset b = b\<lparr>buf := [], off := 0\<rparr>"

definition NewBuffer :: "byte list \<Rightarrow> Buffer" where
  "NewBuffer bs = \<lparr>buf = bs, off = 0\<rparr>"

datatype hash_alg = SHA1 | SHA224 | SHA256 | SHA384 | SHA512 | SHA512_224 | SHA512_256 | MD5

record Hash =
  alg :: hash_alg
  written :: "byte list"

definition hash_New :: "hash_alg \<Rightarrow> Hash" where
  "hash_New a = \<lparr>alg = a, written = []\<rparr>"

text \<open>\<^verbatim>\<open>Write(p)\<close> returns \<^verbatim>\<open>len(p), nil\<close>.\<close>

definition hash_Write :: "Hash \<Rightarrow> byte list \<Rightarrow> Hash \<times> nat" where
  "hash_Write h p = (h\<lparr>written := written h @ p\<rparr>, length p)"

definition hash_Sum :: "(hash_alg \<Rightarrow> byte list \<Rightarrow> byte list) \<Rightarrow> Hash \<Rightarrow> byte list \<Rightarrow> byte list" where
  "hash_Sum digest h b = b @ digest (alg h) (written h)"

text \<open>
  \<^verbatim>\<open>(*Buffer).WriteTo\<close>: the unread bytes go to the writer in one \<^verbatim>\<open>Write\<close>, the offset
  moves by what was written, a short write returns early, and otherwise the buffer is
  reset.
\<close>

definition Buffer_WriteTo :: "Buffer \<Rightarrow> Hash \<Rightarrow> Buffer \<times> Hash" where
  "Buffer_WriteTo b h =
     (let nBytes = Len b
      in if nBytes > 0
         then (case hash_Write h (Bytes b) of
                 (h', m) \<Rightarrow>
                   let b1 = b\<lparr>off := off b + m\<rparr>
                   in if m = nBytes then (Reset b1, h') else (b1, h'))
         else (Reset b, h))"

definition io_Copy :: "Hash \<Rightarrow> Buffer \<Rightarrow> Buffer \<times> Hash" where
  "io_Copy dst src = Buffer_WriteTo src dst"

text \<open>
  Each helper returns the new buffer holding the digest, and the argument buffer as the
  call leaves it.
\<close>

definition hash_helper ::
  "hash_alg \<Rightarrow> (hash_alg \<Rightarrow> byte list \<Rightarrow> byte list) \<Rightarrow> Buffer \<Rightarrow> Buffer \<times> Buffer" where
  "hash_helper a digest data =
     (let m = hash_New a
      in case io_Copy m data of
           (data', m') \<Rightarrow> (NewBuffer (hash_Sum digest m' []), data'))"

definition Sha1 :: "(hash_alg \<Rightarrow> byte list \<Rightarrow> byte list) \<Rightarrow> Buffer \<Rightarrow> Buffer \<times> Buffer" where
  "Sha1 digest data = hash_helper SHA1 digest data"

definition Sha256 :: "(hash_alg \<Rightarrow> byte list \<Rightarrow> byte list) \<Rightarrow> Buffer \<Rightarrow> Buffer \<times> Buffer" where
  "Sha256 digest data = hash_helper SHA256 digest data"

definition Sha224 :: "(hash_alg \<Rightarrow> byte list \<Rightarrow> byte list) \<Rightarrow> Buffer \<Rightarrow> Buffer \<times> Buffer" where
  "Sha224 digest data = hash_helper SHA224 digest data"

definition Sha384 :: "(hash_alg \<Rightarrow> byte list \<Rightarrow> byte list) \<Rightarrow> Buffer \<Rightarrow> Buffer \<times> Buffer" where
  "Sha384 digest data = hash_helper SHA384 digest data"

definition Sha512 :: "(hash_alg \<Rightarrow> byte list \<Rightarrow> byte list) \<Rightarrow> Buffer \<Rightarrow> Buffer \<times> Buffer" where
  "Sha512 digest data = hash_helper SHA512 digest data"

definition Sha512_224 :: "(hash_alg \<Rightarrow> byte list \<Rightarrow> byte list) \<Rightarrow> Buffer \<Rightarrow> Buffer \<times> Buffer" where
  "Sha512_224 digest data = hash_helper SHA512_224 digest data"

definition Sha512_256 :: "(hash_alg \<Rightarrow> byte list \<Rightarrow> byte list) \<Rightarrow> Buffer \<Rightarrow> Buffer \<times> Buffer" where
  "Sha512_256 digest data = hash_helper SHA512_256 digest data"

definition Md5 :: "(hash_alg \<Rightarrow> byte list \<Rightarrow> byte list) \<Rightarrow> Buffer \<Rightarrow> Buffer \<times> Buffer" where
  "Md5 digest data = hash_helper MD5 digest data"

section \<open>Facts about the worlds of the README's program\<close>

lemma ready_world_ms:
  "ms ready_world =
     \<lparr>Server = Some \<lparr>Addr = '':8080'', Handler = Some DefaultServeMux\<rparr>, stop = Some 0,
      started = False, ShutdownTimeout = 10000000000, Error = None\<rparr>"
  by (simp add: ready_world_def NewMserver_def StartDefaultServer_def StartServer_def
      new_world_def zero_Mserver_def emit_def Let_def)

lemma ready_world_chans: "chans ready_world = [Open]"
  by (simp add: ready_world_def NewMserver_def StartDefaultServer_def StartServer_def
      new_world_def zero_Mserver_def emit_def Let_def)

lemma ready_world_calls: "shutdown_calls ready_world = 0"
  by (simp add: ready_world_def NewMserver_def StartDefaultServer_def StartServer_def
      new_world_def zero_Mserver_def emit_def Let_def shutdown_calls_def)

lemma running_world_eq:
  "running_world =
     emit (ListenAndServe \<lparr>Addr = '':8080'', Handler = Some DefaultServeMux\<rparr>)
       ((emit (Log '' Server Started ...'') ready_world)
          \<lparr>ms := (ms ready_world)\<lparr>started := True\<rparr>\<rparr>)"
  by (simp add: running_world_def startGoServerInternal_def ready_world_ms emit_def Let_def)

lemma running_world_ms:
  "ms running_world =
     \<lparr>Server = Some \<lparr>Addr = '':8080'', Handler = Some DefaultServeMux\<rparr>, stop = Some 0,
      started = True, ShutdownTimeout = 10000000000, Error = None\<rparr>"
  by (simp add: running_world_eq ready_world_ms emit_def)

lemma running_world_chans: "chans running_world = [Open]"
  by (simp add: running_world_eq ready_world_chans emit_def)

lemma running_world_open: "is_open 0 running_world"
  by (simp add: is_open_def running_world_chans)

text \<open>
  A valid \<open>StartServer\<close> followed by the start of its serving task leaves a running
  server: flag set, server set, stop channel new and open.
\<close>

lemma StartServer_then_serving:
  assumes "addr \<noteq> []" and "mux \<noteq> None" and "timeout \<noteq> 0" and "\<not> started (ms w)"
  shows "started (ms (snd (startGoServerInternal None shut (StartServer addr mux timeout w)))) \<and>
         Server (ms (snd (startGoServerInternal None shut (StartServer addr mux timeout w)))) =
           Some \<lparr>Addr = addr, Handler = mux\<rparr> \<and>
         stop (ms (snd (startGoServerInternal None shut (StartServer addr mux timeout w)))) =
           Some (length (chans w)) \<and>
         is_open (length (chans w))
           (snd (startGoServerInternal None shut (StartServer addr mux timeout w)))"
  using assms
  by (auto simp add: StartServer_def startGoServerInternal_def emit_def is_open_def Let_def)

section \<open>Shared facts about the shutdown routine\<close>

lemma stopServerInternal_completes:
  assumes "started (ms w)" and "Server (ms w) = Some srv" and "stop (ms w) = Some c"
    and "is_open c w"
  shows "shutdown_completed (snd (stopServerInternal shut w))"
  using assms
  by (simp add: stopServerInternal_def run_deferred_def close_chan_def shutdown_completed_def
      emit_def is_closed_def is_open_def Let_def)

lemma shutdown_completed_emit: "shutdown_completed (emit e w) = shutdown_completed w"
  by (simp add: shutdown_completed_def emit_def is_closed_def split: option.splits)

lemma GracefulStop_completed:
  assumes "shutdown_completed w"
  shows "GracefulStop arrival shut b w =
     (Returns (Some ErrServerNotStarted),
      if b \<and> Error (ms w) = None then emit (Log '' Waiting for signals ...'') w else w)"
  using assms
  by (auto simp add: GracefulStop_def shutdown_completed_def receive_def emit_def is_closed_def
      Let_def split: option.splits)

lemma GracefulStop_calls_completed:
  assumes "shutdown_completed w"
  shows "GracefulStop_calls cs w =
     (map (\<lambda>c. Returns (Some ErrServerNotStarted)) cs,
      w\<lparr>trace := trace w @ wait_logs cs (ms w)\<rparr>)"
  using assms
proof (induction cs arbitrary: w)
  case Nil
  show ?case by simp
next
  case (Cons call cs)
  obtain arrival shut b where call: "call = (arrival, shut, b)" by (cases call)
  show ?case
  proof (cases "b \<and> Error (ms w) = None")
    case True
    let ?w1 = "emit (Log '' Waiting for signals ...'') w"
    have g: "GracefulStop arrival shut b w = (Returns (Some ErrServerNotStarted), ?w1)"
      using Cons.prems True by (simp add: GracefulStop_completed)
    have "shutdown_completed ?w1"
      using Cons.prems by (simp add: shutdown_completed_emit)
    then have "GracefulStop_calls cs ?w1 =
       (map (\<lambda>c. Returns (Some ErrServerNotStarted)) cs,
        ?w1\<lparr>trace := trace ?w1 @ wait_logs cs (ms ?w1)\<rparr>)"
      by (rule Cons.IH)
    then show ?thesis
      using True g by (simp add: call emit_def)
  next
    case False
    have g: "GracefulStop arrival shut b w = (Returns (Some ErrServerNotStarted), w)"
      using Cons.prems False by (auto simp add: GracefulStop_completed)
    have "GracefulStop_calls cs w =
       (map (\<lambda>c. Returns (Some ErrServerNotStarted)) cs,
        w\<lparr>trace := trace w @ wait_logs cs (ms w)\<rparr>)"
      using Cons.prems by (rule Cons.IH)
    then show ?thesis
      using False g by (simp add: call)
  qed
qed

lemma wait_logs_no_Shutdown: "filter is_Shutdown (map fst (wait_logs cs m)) = []"
  by (induction cs m rule: wait_logs.induct) simp_all

section \<open>The statement-by-statement run agrees with the function\<close>

text \<open>
  A goroutine that executes \<open>stopServerInternal\<close> alone, statement by statement, ends where
  the function \<open>stopServerInternal\<close> says, with the same world.
\<close>

lemma solo_run_not_started:
  "\<not> started (ms w) \<Longrightarrow>
   run [Step 0] \<lparr>shared = w, procs = [S_entry]\<rparr> =
     Some \<lparr>shared = snd (stopServerInternal shut w),
           procs = [final_pc (fst (stopServerInternal shut w))]\<rparr>"
  by (simp add: stopServerInternal_def crashed_def set_pc_def final_pc_def)

lemma run_append:
  "run (as @ bs) cfg = (case run as cfg of None \<Rightarrow> None | Some cfg' \<Rightarrow> run bs cfg')"
  by (induction as arbitrary: cfg) (simp_all split: option.splits)

lemma deferred_steps:
  "run [Step 0, Step 0] \<lparr>shared = w, procs = [S_close c ch (Returns v)]\<rparr> =
     Some \<lparr>shared = snd (run_deferred ch c (Returns v) w),
           procs = [final_pc (fst (run_deferred ch c (Returns v) w))]\<rparr>"
  by (cases "close_chan ch w")
    (simp_all add: run_deferred_def crashed_def set_pc_def final_pc_def)

lemma solo_run_started:
  assumes "started (ms w)" and "Server (ms w) = Some srv"
  shows "run (solo_schedule shut) \<lparr>shared = w, procs = [S_entry]\<rparr> =
     Some \<lparr>shared = snd (stopServerInternal shut w),
           procs = [final_pc (fst (stopServerInternal shut w))]\<rparr>"
proof -
  let ?c = "WithTimeout (ShutdownTimeout (ms w))"
  let ?w3 = "(emit (Shutdown srv ?c) ((emit (CtxCreate ?c) w)\<lparr>ms := (ms w)\<lparr>started := False\<rparr>\<rparr>))
               \<lparr>ms := (ms w)\<lparr>started := False, Error := shut\<rparr>\<rparr>"
  have split: "solo_schedule shut =
      [Step 0, Step 0, Step 0, Step 0, Step 0, ShutdownReturns 0 shut, Step 0, Step 0] @
      [Step 0, Step 0]"
    by (simp add: solo_schedule_def)
  have first: "run [Step 0, Step 0, Step 0, Step 0, Step 0, ShutdownReturns 0 shut, Step 0, Step 0]
        \<lparr>shared = w, procs = [S_entry]\<rparr> =
      Some \<lparr>shared = ?w3, procs = [S_close ?c (stop (ms w)) (Returns shut)]\<rparr>"
    using assms by (simp add: crashed_def set_pc_def emit_def Let_def)
  have big: "stopServerInternal shut w = run_deferred (stop (ms w)) ?c (Returns shut) ?w3"
    using assms by (simp add: stopServerInternal_def emit_def Let_def)
  show ?thesis
    unfolding split run_append first big by (simp only: option.case deferred_steps)
qed

text \<open>
  The same for the callers: \<open>GracefulStop\<close> that does not wait, \<open>GracefulStop\<close> woken by
  a signal, and the serving task when \<^verbatim>\<open>ListenAndServe\<close> returns nil or an error.
\<close>

lemma solo_GracefulStop_no_wait:
  assumes "started (ms w)" and "Server (ms w) = Some srv"
  shows "run ([Step 0, Step 0, Step 0] @ solo_schedule shut)
           \<lparr>shared = w, procs = [G_entry False]\<rparr> =
         Some \<lparr>shared = snd (GracefulStop arrival shut False w),
               procs = [final_pc (fst (GracefulStop arrival shut False w))]\<rparr>"
proof -
  let ?w1 = "emit (Log ('' Shutting down Server at '' @ Addr srv @ '' ...'')) w"
  have first: "run [Step 0, Step 0, Step 0] \<lparr>shared = w, procs = [G_entry False]\<rparr> =
      Some \<lparr>shared = ?w1, procs = [S_entry]\<rparr>"
    using assms by (simp add: crashed_def set_pc_def)
  have big: "GracefulStop arrival shut False w = stopServerInternal shut ?w1"
    using assms by (simp add: GracefulStop_def)
  have "started (ms ?w1)" and "Server (ms ?w1) = Some srv"
    using assms by (simp_all add: emit_def)
  then have "run (solo_schedule shut) \<lparr>shared = ?w1, procs = [S_entry]\<rparr> =
      Some \<lparr>shared = snd (stopServerInternal shut ?w1),
            procs = [final_pc (fst (stopServerInternal shut ?w1))]\<rparr>"
    by (rule solo_run_started)
  then show ?thesis
    unfolding run_append first big by (simp only: option.case)
qed

lemma solo_GracefulStop_signal:
  assumes "started (ms w)" and "Server (ms w) = Some srv" and "Error (ms w) = None"
    and "stop (ms w) = Some c" and "is_open c w" and "registered c s w"
  shows "run ([Step 0, Step 0, Step 0, Deliver s 0, Step 0, Step 0] @ solo_schedule shut)
           \<lparr>shared = w, procs = [G_entry True]\<rparr> =
         Some \<lparr>shared = snd (GracefulStop (Some s) shut True w),
               procs = [final_pc (fst (GracefulStop (Some s) shut True w))]\<rparr>"
proof -
  let ?w1 = "emit (Log ('' Shutting down Server at '' @ Addr srv @ '' ...''))
               (emit (Log '' Waiting for signals ...'') w)"
  have reg: "registered c s (emit (Log '' Waiting for signals ...'') w)"
    using assms(6) by (simp add: registered_def emit_def)
  have opn: "is_open c (emit (Log '' Waiting for signals ...'') w)"
    using assms(5) by (simp add: is_open_def emit_def)
  have first: "run [Step 0, Step 0, Step 0, Deliver s 0, Step 0, Step 0]
        \<lparr>shared = w, procs = [G_entry True]\<rparr> =
      Some \<lparr>shared = ?w1, procs = [S_entry]\<rparr>"
    using assms(1-4) reg opn by (simp add: crashed_def set_pc_def emit_def)
  have big: "GracefulStop (Some s) shut True w = stopServerInternal shut ?w1"
    using assms by (simp add: GracefulStop_def receive_def emit_def)
  have "started (ms ?w1)" and "Server (ms ?w1) = Some srv"
    using assms by (simp_all add: emit_def)
  then have "run (solo_schedule shut) \<lparr>shared = ?w1, procs = [S_entry]\<rparr> =
      Some \<lparr>shared = snd (stopServerInternal shut ?w1),
            procs = [final_pc (fst (stopServerInternal shut ?w1))]\<rparr>"
    by (rule solo_run_started)
  then show ?thesis
    unfolding run_append first big by (simp only: option.case)
qed

lemma solo_serving_task_nil:
  assumes "\<not> started (ms w)" and "Server (ms w) = Some srv"
  shows "run [Step 0, Step 0, Step 0, Step 0, ServeReturns 0 None, Step 0, Step 0, Step 0]
           \<lparr>shared = w, procs = [T_entry]\<rparr> =
         Some \<lparr>shared = snd (startGoServerInternal (Some None) shut w), procs = [Exited]\<rparr>"
  using assms
  by (simp add: crashed_def set_pc_def startGoServerInternal_def Let_def emit_def)

lemma solo_serving_task_error:
  assumes "\<not> started (ms w)" and "Server (ms w) = Some srv"
  shows "map_option shared
           (run ([Step 0, Step 0, Step 0, Step 0, ServeReturns 0 (Some e), Step 0, Step 0, Step 0] @
                 solo_schedule shut)
              \<lparr>shared = w, procs = [T_entry]\<rparr>) =
         Some (snd (startGoServerInternal (Some (Some e)) shut w))"
proof -
  let ?w5 = "emit (Log '' Server Stopping ...'')
               ((emit (ListenAndServe srv)
                   ((emit (Log '' Server Started ...'') w)\<lparr>ms := (ms w)\<lparr>started := True\<rparr>\<rparr>))
                  \<lparr>ms := (ms w)\<lparr>started := True, Error := Some e\<rparr>\<rparr>)"
  have first: "run [Step 0, Step 0, Step 0, Step 0, ServeReturns 0 (Some e), Step 0, Step 0, Step 0]
        \<lparr>shared = w, procs = [T_entry]\<rparr> =
      Some \<lparr>shared = ?w5, procs = [S_entry]\<rparr>"
    using assms by (simp add: crashed_def set_pc_def emit_def)
  have big: "snd (startGoServerInternal (Some (Some e)) shut w) = snd (stopServerInternal shut ?w5)"
    using assms by (simp add: startGoServerInternal_def Let_def case_prod_beta emit_def)
  have "started (ms ?w5)" and "Server (ms ?w5) = Some srv"
    using assms by (simp_all add: emit_def)
  then have "run (solo_schedule shut) \<lparr>shared = ?w5, procs = [S_entry]\<rparr> =
      Some \<lparr>shared = snd (stopServerInternal shut ?w5),
            procs = [final_pc (fst (stopServerInternal shut ?w5))]\<rparr>"
    by (rule solo_run_started)
  then show ?thesis
    unfolding run_append first big by simp
qed

section \<open>Shutdown under concurrent triggers\<close>

text \<open>
  C1. The claim: when an interrupt, \<open>ForceStop\<close> and a fatal error of \<^verbatim>\<open>ListenAndServe\<close>
  arrive together, \<^verbatim>\<open>Server.Shutdown\<close> is called exactly once and the stop channel is
  closed exactly once. The code tests and clears \<open>started\<close> in two statements, so in
  \<open>race_schedule\<close> both \<^verbatim>\<open>main\<close> and the serving task pass the test: \<^verbatim>\<open>Shutdown\<close> is called
  twice, \<^verbatim>\<open>main\<close> closes the channel and returns \<^verbatim>\<open>nil\<close>, and the second
  \<^verbatim>\<open>close(p.stop)\<close>, in the serving task, panics.
\<close>

theorem concurrent_triggers_call_Shutdown_twice:
  "map_option observe (run race_schedule race_start) =
     Some (2, [Returned None, Panicked, F_parked (Some 0)])"
  by (simp add: race_schedule_def race_start_def ready_world_def NewMserver_def
      StartDefaultServer_def StartServer_def new_world_def zero_Mserver_def emit_def crashed_def
      set_pc_def registered_def is_open_def is_closed_def close_chan_def shutdown_calls_def
      observe_def Let_def)

section \<open>Starting\<close>

text \<open>
  C2, as the code has it. \<open>StartServer\<close> with an empty address, a nil mux or a timeout equal
  to zero changes nothing: the struct, the channels and the trace are as before, so
  \<open>started\<close> stays false and no goroutine is launched. The same holds for
  \<open>StartDefaultServer\<close> with an empty address or a zero timeout.
\<close>

theorem StartServer_invalid_noop:
  "addr = [] \<or> mux = None \<or> timeout = 0 \<Longrightarrow>
   StartServer addr mux timeout w = w \<and>
   (mux = Some DefaultServeMux \<longrightarrow> StartDefaultServer addr timeout w = w)"
  by (auto simp add: StartServer_def StartDefaultServer_def)

theorem StartServer_invalid_noop_witness:
  "StartServer [] (Some DefaultServeMux) 10000000000 new_world = new_world \<and>
   StartDefaultServer [] 10000000000 new_world = new_world \<and>
   StartServer '':8080'' None 10000000000 new_world = new_world \<and>
   StartServer '':8080'' (Some DefaultServeMux) 0 new_world = new_world \<and>
   StartDefaultServer '':8080'' 0 new_world = new_world"
  using StartServer_invalid_noop [of "[]" "Some DefaultServeMux" 10000000000 new_world]
    StartServer_invalid_noop [of "'':8080''" None 10000000000 new_world]
    StartServer_invalid_noop [of "'':8080''" "Some DefaultServeMux" 0 new_world]
  by simp

text \<open>
  C2 as stated speaks of every non-positive timeout. The guard compares with zero only: a
  negative timeout, here \<open>-1\<close> nanosecond, passes it, the struct is set up and the serving
  task is launched.
\<close>

theorem StartServer_negative_timeout_counterexample:
  "sint (- 1 :: Duration) \<le> 0 \<and>
   StartServer '':8080'' (Some DefaultServeMux) (- 1) new_world \<noteq> new_world \<and>
   last (trace (StartServer '':8080'' (Some DefaultServeMux) (- 1) new_world)) =
     (Go_startGoServerInternal,
      \<lparr>Server = Some \<lparr>Addr = '':8080'', Handler = Some DefaultServeMux\<rparr>, stop = Some 0,
       started = False, ShutdownTimeout = - 1, Error = None\<rparr>)"
  by (simp add: StartServer_def new_world_def zero_Mserver_def emit_def Let_def)

text \<open>
  C10. With a non-empty address, a mux and a non-zero timeout, \<open>StartServer\<close> leaves \<open>Error\<close>
  nil, whatever it held before; the launch of the serving task is the last thing it does
  and happens with \<open>Error\<close> already nil, and it launches exactly one task. A
  \<open>GracefulStop(true)\<close> that follows therefore logs and waits in the receive: with nothing
  arriving on the new channel it blocks.
\<close>

theorem StartServer_resets_Error:
  assumes "addr \<noteq> []" and "mux \<noteq> None" and "timeout \<noteq> 0"
  shows "Error (ms (StartServer addr mux timeout w)) = None \<and>
         last (trace (StartServer addr mux timeout w)) =
           (Go_startGoServerInternal, ms (StartServer addr mux timeout w)) \<and>
         length (filter (\<lambda>x. fst x = Go_startGoServerInternal) (trace (StartServer addr mux timeout w))) =
           Suc (length (filter (\<lambda>x. fst x = Go_startGoServerInternal) (trace w))) \<and>
         GracefulStop None shut True (StartServer addr mux timeout w) =
           (Blocks, emit (Log '' Waiting for signals ...'') (StartServer addr mux timeout w))"
  using assms
  by (auto simp add: StartServer_def GracefulStop_def receive_def is_closed_def emit_def Let_def
      nth_append)

theorem StartServer_resets_Error_witness:
  "Error (ms (new_world\<lparr>ms := zero_Mserver\<lparr>Error := Some ErrServerClosed\<rparr>\<rparr>)) = Some ErrServerClosed \<and>
   Error (ms (StartServer '':8080'' (Some DefaultServeMux) 10000000000
     (new_world\<lparr>ms := zero_Mserver\<lparr>Error := Some ErrServerClosed\<rparr>\<rparr>))) = None \<and>
   fst (GracefulStop None None True (StartServer '':8080'' (Some DefaultServeMux) 10000000000
     (new_world\<lparr>ms := zero_Mserver\<lparr>Error := Some ErrServerClosed\<rparr>\<rparr>))) = Blocks"
  using StartServer_resets_Error [of "'':8080''" "Some DefaultServeMux" 10000000000
      "new_world\<lparr>ms := zero_Mserver\<lparr>Error := Some ErrServerClosed\<rparr>\<rparr>" None]
  by simp

section \<open>The serving task\<close>





section \<open>The internal shutdown routine\<close>

text \<open>
  C5. When \<open>started\<close> is false, \<open>stopServerInternal\<close> returns \<open>ErrServerNotStarted\<close> and has
  no effect at all: the struct, the channels and the trace of external calls (so no
  \<open>Shutdown\<close>, no \<open>Close\<close>) are as before.
\<close>

theorem stopServerInternal_not_started:
  "\<not> started (ms w) \<Longrightarrow> stopServerInternal shut w = (Returns (Some ErrServerNotStarted), w)"
  by (simp add: stopServerInternal_def)

theorem stopServerInternal_not_started_witness:
  "\<not> started (ms new_world) \<and>
   stopServerInternal (Some ErrServerClosed) new_world = (Returns (Some ErrServerNotStarted), new_world)"
  using stopServerInternal_not_started [of new_world "Some ErrServerClosed"]
  by (simp add: new_world_def zero_Mserver_def)



section \<open>Stopping\<close>

text \<open>
  C4, as the code has it. On an \<open>Mserver\<close> whose flag is false, so on one that was never
  started, \<open>GracefulStop(false)\<close> returns \<open>ErrServerNotStarted\<close> without waiting and changes
  nothing.
\<close>

theorem GracefulStop_unstarted_no_wait:
  "\<not> started (ms w) \<Longrightarrow>
   GracefulStop arrival shut False w = (Returns (Some ErrServerNotStarted), w)"
  by (simp add: GracefulStop_def)

theorem GracefulStop_unstarted_no_wait_witness:
  "\<not> started (ms new_world) \<and>
   GracefulStop None None False new_world = (Returns (Some ErrServerNotStarted), new_world)"
  using GracefulStop_unstarted_no_wait [of new_world None None]
  by (simp add: new_world_def zero_Mserver_def)

text \<open>
  C4 as stated covers \<open>GracefulStop(true)\<close> too. On the zero \<open>Mserver\<close> that call reaches
  the receive on the nil channel, which never completes, even when the process is sent
  an interrupt.
\<close>

theorem GracefulStop_unstarted_blocks_counterexample:
  "ms new_world = zero_Mserver \<and> started zero_Mserver = False \<and> Error zero_Mserver = None \<and>
   stop zero_Mserver = None \<and>
   fst (GracefulStop (Some Interrupt) None True new_world) = Blocks"
  by (simp add: GracefulStop_def new_world_def zero_Mserver_def receive_def emit_def)

text \<open>
  C7. After \<open>stopServerInternal\<close> has shut a started server down, every later call of
  \<open>GracefulStop\<close>, with either argument and whatever arrives, returns
  \<open>ErrServerNotStarted\<close>. The struct and the channels stay as the shutdown left them, the
  trace grows by nothing but the log line of a call that was asked to wait, and
  \<^verbatim>\<open>Shutdown\<close> is not called again.
\<close>

theorem GracefulStop_after_shutdown:
  assumes "started (ms w0)" and "Server (ms w0) = Some srv" and "stop (ms w0) = Some c"
    and "is_open c w0"
  shows "GracefulStop_calls cs (snd (stopServerInternal shut0 w0)) =
           (map (\<lambda>c. Returns (Some ErrServerNotStarted)) cs,
            (snd (stopServerInternal shut0 w0))
              \<lparr>trace := trace (snd (stopServerInternal shut0 w0)) @
                          wait_logs cs (ms (snd (stopServerInternal shut0 w0)))\<rparr>) \<and>
         shutdown_calls (snd (GracefulStop_calls cs (snd (stopServerInternal shut0 w0)))) =
           shutdown_calls (snd (stopServerInternal shut0 w0))"
proof -
  have "shutdown_completed (snd (stopServerInternal shut0 w0))"
    using assms by (rule stopServerInternal_completes)
  then have eq: "GracefulStop_calls cs (snd (stopServerInternal shut0 w0)) =
           (map (\<lambda>c. Returns (Some ErrServerNotStarted)) cs,
            (snd (stopServerInternal shut0 w0))
              \<lparr>trace := trace (snd (stopServerInternal shut0 w0)) @
                          wait_logs cs (ms (snd (stopServerInternal shut0 w0)))\<rparr>)"
    by (rule GracefulStop_calls_completed)
  show ?thesis
    unfolding eq by (simp add: shutdown_calls_def wait_logs_no_Shutdown)
qed

theorem GracefulStop_after_shutdown_witness:
  "started (ms running_world) \<and>
   Server (ms running_world) = Some \<lparr>Addr = '':8080'', Handler = Some DefaultServeMux\<rparr> \<and>
   stop (ms running_world) = Some 0 \<and> is_open 0 running_world \<and>
   fst (GracefulStop_calls [(None, None, True), (Some Kill, Some ErrServerClosed, False)]
          (snd (stopServerInternal None running_world))) =
     [Returns (Some ErrServerNotStarted), Returns (Some ErrServerNotStarted)] \<and>
   shutdown_calls (snd (GracefulStop_calls [(None, None, True), (Some Kill, Some ErrServerClosed, False)]
          (snd (stopServerInternal None running_world)))) =
     shutdown_calls (snd (stopServerInternal None running_world))"
proof -
  have h1: "started (ms running_world)" by (simp add: running_world_ms)
  have h2: "Server (ms running_world) = Some \<lparr>Addr = '':8080'', Handler = Some DefaultServeMux\<rparr>"
    by (simp add: running_world_ms)
  have h3: "stop (ms running_world) = Some 0" by (simp add: running_world_ms)
  have h4: "is_open 0 running_world" by (rule running_world_open)
  note inst = GracefulStop_after_shutdown [OF h1 h2 h3 h4,
        of "[(None, None, True), (Some Kill, Some ErrServerClosed, False)]" None]
  from inst have a:
    "fst (GracefulStop_calls [(None, None, True), (Some Kill, Some ErrServerClosed, False)]
          (snd (stopServerInternal None running_world))) =
     [Returns (Some ErrServerNotStarted), Returns (Some ErrServerNotStarted)]"
    by (simp del: GracefulStop_calls.simps wait_logs.simps)
  from inst have b:
    "shutdown_calls (snd (GracefulStop_calls [(None, None, True), (Some Kill, Some ErrServerClosed, False)]
          (snd (stopServerInternal None running_world)))) =
     shutdown_calls (snd (stopServerInternal None running_world))"
    by (rule conjunct2)
  from h1 h2 h3 h4 a b show ?thesis by (intro conjI)
qed

text \<open>
  C8. When \<open>started\<close> is false, \<open>ForceStop\<close> returns at once and changes nothing: no
  \<^verbatim>\<open>signal.Stop\<close>, no send, every field as before.
\<close>

theorem ForceStop_not_started:
  "\<not> started (ms w) \<Longrightarrow> ForceStop receiver w = (Returns (), w)"
  by (simp add: ForceStop_def)

theorem ForceStop_not_started_witness:
  "\<not> started (ms new_world) \<and> ForceStop True new_world = (Returns (), new_world) \<and>
   \<not> started (ms ready_world) \<and> ForceStop False ready_world = (Returns (), ready_world)"
  using ForceStop_not_started [of new_world True] ForceStop_not_started [of ready_world False]
  by (simp add: new_world_def zero_Mserver_def ready_world_ms)

section \<open>The hashing helpers drain their argument\<close>

text \<open>
  C9. After any of the eight helpers the argument buffer has no unread byte left.
\<close>

theorem hash_helpers_drain_buffer:
  "Len (snd (Sha1 digest b)) = 0 \<and> Len (snd (Sha224 digest b)) = 0 \<and>
   Len (snd (Sha256 digest b)) = 0 \<and> Len (snd (Sha384 digest b)) = 0 \<and>
   Len (snd (Sha512 digest b)) = 0 \<and> Len (snd (Sha512_224 digest b)) = 0 \<and>
   Len (snd (Sha512_256 digest b)) = 0 \<and> Len (snd (Md5 digest b)) = 0"
proof -
  have drained: "Len (fst (Buffer_WriteTo b h)) = 0" for h
    by (simp add: Buffer_WriteTo_def hash_Write_def Bytes_def Len_def Reset_def Let_def)
  have "Len (snd (hash_helper a digest b)) = 0" for a
    using drained [of "hash_New a"]
    by (simp add: hash_helper_def io_Copy_def Let_def case_prod_beta)
  then show ?thesis
    by (simp add: Sha1_def Sha224_def Sha256_def Sha384_def Sha512_def Sha512_224_def
        Sha512_256_def Md5_def)
qed

end
